theory Spec2Isabelle
  imports Main "HOL-Library.Char_ord" "HOL-Library.List_Lexorder" "HOL-Library.Sublist"
begin

section \<open>The snapshot and the change list\<close>

text \<open>
  \<^verbatim>\<open>notifier.py\<close> keeps one JSON document on disk, the snapshot:
  \<^verbatim>\<open>{"space_ids": [...], "model_ids": [...], "watched_space": {"sha": ..., "lastModified": ...},
    "checked_at": ...}\<close>.
  The two detail fields come from \<^verbatim>\<open>data.get(...)\<close> and are \<^verbatim>\<open>None\<close> when the key is
  missing or null: they are options. \<^verbatim>\<open>detect_changes\<close> reads \<^verbatim>\<open>watched_space\<close> with
  \<^verbatim>\<open>.get("watched_space", {})\<close>, so the key itself may be missing from a snapshot: it is
  an option too. Identifiers and tokens are Python strings, compared and sorted as Python
  does, character by character: the order on \<open>string\<close> is the lexicographic one over the
  order of character codes. A \<open>string\<close> holds bytes; identifiers and revision hashes are
  ASCII, where a byte is a character, so \<^verbatim>\<open>sha[:12]\<close> is \<open>take 12\<close>.
\<close>

record detail =
  sha :: "string option"
  lastModified :: "string option"

record snapshot =
  space_ids :: "string list"
  model_ids :: "string list"
  watched_space :: "detail option"
  checked_at :: string

text \<open>A change is the pair \<^verbatim>\<open>(priority, message)\<close>; the priority is the Python string.\<close>

type_synonym change = "string \<times> string"

text \<open>\<^verbatim>\<open>state.get("watched_space", {})\<close> followed by \<^verbatim>\<open>.get("sha")\<close>: a missing
  \<^verbatim>\<open>watched_space\<close> is the empty dict, whose \<^verbatim>\<open>sha\<close> is \<^verbatim>\<open>None\<close>.\<close>

definition get_sha :: "snapshot \<Rightarrow> string option" where
  "get_sha state = (case watched_space state of None \<Rightarrow> None | Some d \<Rightarrow> sha d)"

text \<open>Python's truth value of an optional string: \<^verbatim>\<open>None\<close> and \<^verbatim>\<open>""\<close> are false.\<close>

fun truthy :: "string option \<Rightarrow> bool" where
  "truthy None = False"
| "truthy (Some s) = (s \<noteq> [])"

text \<open>
  \<^verbatim>\<open>detect_changes\<close>, lines 58 to 77. \<^verbatim>\<open>sorted(set(new) - set(old))\<close> is
  \<open>sorted_list_of_set\<close> of the set difference; the two loops append one entry per element,
  the last block appends at most one entry for the watched space.
\<close>

definition detect_changes :: "snapshot \<Rightarrow> snapshot \<Rightarrow> change list" where
  "detect_changes old_state new_state =
    (let new_spaces = set (space_ids new_state) - set (space_ids old_state);
         changes1 = map (\<lambda>sid. (''HIGH'', ''New Space: '' @ sid)) (sorted_list_of_set new_spaces);
         new_models = set (model_ids new_state) - set (model_ids old_state);
         changes2 = changes1 @
           map (\<lambda>mid. (''MEDIUM'', ''New Model: '' @ mid)) (sorted_list_of_set new_models);
         old_sha = get_sha old_state;
         new_sha = get_sha new_state
     in if truthy old_sha \<and> truthy new_sha then
          (if old_sha \<noteq> new_sha then
             (case new_sha of
                Some h \<Rightarrow> changes2 @ [(''MEDIUM'', ''Puzzle space updated (sha: '' @ take 12 h @ '')'')]
              | None \<Rightarrow> changes2)
           else changes2)
        else changes2)"

section \<open>The formatter\<close>

text \<open>
  \<^verbatim>\<open>format_alert\<close>, lines 80 to 87. A \<open>string\<close> is a list of bytes, so the three icons
  are written as their UTF-8 bytes (U+1F6A8, U+1F4E6, and U+2139 U+FE0F for a priority
  that is neither \<^verbatim>\<open>HIGH\<close> nor \<^verbatim>\<open>MEDIUM\<close>), and the line feed is byte \<open>0x0A\<close>.
\<close>

definition newline :: string where
  "newline = [CHR 0x0A]"

definition priority_icon :: "string \<Rightarrow> string" where
  "priority_icon priority =
    (if priority = ''HIGH'' then [CHR 0xF0, CHR 0x9F, CHR 0x9A, CHR 0xA8]
     else if priority = ''MEDIUM'' then [CHR 0xF0, CHR 0x9F, CHR 0x93, CHR 0xA6]
     else [CHR 0xE2, CHR 0x84, CHR 0xB9, CHR 0xEF, CHR 0xB8, CHR 0x8F])"

text \<open>\<^verbatim>\<open>sep.join(lines)\<close>.\<close>

fun join :: "string \<Rightarrow> string list \<Rightarrow> string" where
  "join sep [] = []"
| "join sep [l] = l"
| "join sep (l # ls) = l @ sep @ join sep ls"

definition format_alert :: "change list \<Rightarrow> string" where
  "format_alert changes =
    join newline
      ([''<b>Jane Street HuggingFace Activity</b>'' @ newline] @
       map (\<lambda>(priority, msg). priority_icon priority @ '' ['' @ priority @ ''] '' @ msg) changes @
       [newline @ ''https://huggingface.co/jane-street''])"

section \<open>The fetcher\<close>

text \<open>
  What \<^verbatim>\<open>resp.json()\<close> returns is a decoded JSON value. The program looks at it in two
  ways, and the two types below describe it as far as each way looks.

  \<^verbatim>\<open>fetch_repo_lists\<close> iterates over the value and subscripts every element with
  \<^verbatim>\<open>"id"\<close>. An element is a JSON object, given by its \<^verbatim>\<open>id\<close> (\<open>None\<close> when it has no
  such member), or it is not an object. The value itself is an array of elements, an
  object (iterating over a dict gives its keys), a string (iterating gives its
  characters), or a number, a boolean or null.

  \<^verbatim>\<open>fetch_space_detail\<close> calls \<^verbatim>\<open>data.get\<close> twice. The value is a JSON object, given by
  its \<^verbatim>\<open>sha\<close> and its \<^verbatim>\<open>lastModified\<close> (\<open>None\<close> when the member is missing or null,
  which is what \<^verbatim>\<open>.get\<close> returns then), or it is not an object.

  Identifiers and tokens are strings, in these types as in the snapshot. The code does not
  check that: it passes on whatever value it finds. An object whose \<^verbatim>\<open>id\<close> is not a
  string, or whose \<^verbatim>\<open>sha\<close> or \<^verbatim>\<open>lastModified\<close> is neither a string nor null, has no
  counterpart in these types, and no statement below is about a response that holds one.
\<close>

datatype element =
  Object "string option"
| NotObject

datatype listing_json =
  Array "element list"
| Dict "string list"
| Text string
| Scalar

datatype detail_json =
  Record "string option" "string option"
| NotRecord

text \<open>
  The outcome of one \<^verbatim>\<open>requests.get\<close>: the call itself raises (no connection, timeout), or
  it returns a response with a status code and a body. The body is given decoded, \<open>None\<close>
  when it is not JSON, which is when \<^verbatim>\<open>.json()\<close> raises.
\<close>

datatype 'b http_result =
  NoResponse
| Response nat "'b option"

text \<open>
  The exceptions of a run. \<^verbatim>\<open>main\<close> catches \<^verbatim>\<open>requests.RequestException\<close> (which
  \<^verbatim>\<open>HTTPError\<close>, \<^verbatim>\<open>ConnectionError\<close> and \<^verbatim>\<open>Timeout\<close> are) and \<^verbatim>\<open>ValueError\<close> (which a
  JSON decoding error is); the other three are not caught anywhere.
\<close>

datatype exn = RequestException | ValueError | TypeError | KeyError | AttributeError

text \<open>\<^verbatim>\<open>requests.get(...).json()\<close> as \<^verbatim>\<open>fetch_repo_lists\<close> writes it: the status code is
  not looked at.\<close>

fun get_json :: "'b http_result \<Rightarrow> exn + 'b" where
  "get_json NoResponse = Inl RequestException"
| "get_json (Response status None) = Inl ValueError"
| "get_json (Response status (Some j)) = Inr j"

text \<open>\<^verbatim>\<open>resp.raise_for_status()\<close> raises \<^verbatim>\<open>HTTPError\<close> for a status from 400 to 599;
  \<^verbatim>\<open>resp.ok\<close> is true when it does not raise.\<close>

definition ok :: "nat \<Rightarrow> bool" where
  "ok status = (status < 400 \<or> 600 \<le> status)"

text \<open>
  \<^verbatim>\<open>for s in spaces\<close>: a list gives its elements, a dict its keys and a string its
  characters, which are strings and so not objects; anything else is not iterable.
\<close>

fun py_iter :: "listing_json \<Rightarrow> exn + element list" where
  "py_iter (Array xs) = Inr xs"
| "py_iter (Dict keys) = Inr (map (\<lambda>k. NotObject) keys)"
| "py_iter (Text s) = Inr (map (\<lambda>c. NotObject) s)"
| "py_iter Scalar = Inl TypeError"

text \<open>
  \<^verbatim>\<open>s["id"]\<close>: the value of the member, whatever it is; a dict without the key raises
  \<^verbatim>\<open>KeyError\<close>; a value that is not a dict raises \<^verbatim>\<open>TypeError\<close>.
\<close>

fun subscript_id :: "element \<Rightarrow> exn + string" where
  "subscript_id (Object (Some i)) = Inr i"
| "subscript_id (Object None) = Inl KeyError"
| "subscript_id NotObject = Inl TypeError"

text \<open>The generator \<^verbatim>\<open>s["id"] for s in spaces\<close>, consumed in order: the first element that
  raises ends it.\<close>

fun ids_of :: "element list \<Rightarrow> exn + string list" where
  "ids_of [] = Inr []"
| "ids_of (s # rest) =
    (case subscript_id s of
       Inl e \<Rightarrow> Inl e
     | Inr i \<Rightarrow> (case ids_of rest of Inl e \<Rightarrow> Inl e | Inr ids \<Rightarrow> Inr (i # ids)))"

text \<open>\<^verbatim>\<open>sorted(s["id"] for s in spaces)\<close>: every identifier of the listing, sorted; nothing
  removes a repeated one.\<close>

definition sorted_ids :: "listing_json \<Rightarrow> exn + string list" where
  "sorted_ids listing =
    (case py_iter listing of
       Inl e \<Rightarrow> Inl e
     | Inr items \<Rightarrow> (case ids_of items of Inl e \<Rightarrow> Inl e | Inr ids \<Rightarrow> Inr (sort ids)))"

text \<open>
  \<^verbatim>\<open>fetch_repo_lists\<close>, lines 15 to 29: both requests and their decoding first, then the
  two sorted lists. The result is the pair \<^verbatim>\<open>(space_ids, model_ids)\<close>.
\<close>

definition fetch_repo_lists ::
  "listing_json http_result \<Rightarrow> listing_json http_result \<Rightarrow> exn + (string list \<times> string list)" where
  "fetch_repo_lists spaces_r models_r =
    (case get_json spaces_r of
       Inl e \<Rightarrow> Inl e
     | Inr spaces \<Rightarrow>
        (case get_json models_r of
           Inl e \<Rightarrow> Inl e
         | Inr models \<Rightarrow>
            (case sorted_ids spaces of
               Inl e \<Rightarrow> Inl e
             | Inr sids \<Rightarrow>
                (case sorted_ids models of
                   Inl e \<Rightarrow> Inl e
                 | Inr mids \<Rightarrow> Inr (sids, mids)))))"

text \<open>
  \<^verbatim>\<open>fetch_space_detail\<close>, lines 32 to 42, on the response to its request: the status is
  checked before the body is decoded, and \<^verbatim>\<open>data.get\<close> needs a dict; the two members are
  returned as \<^verbatim>\<open>.get\<close> finds them.
\<close>

definition fetch_space_detail :: "detail_json http_result \<Rightarrow> exn + detail" where
  "fetch_space_detail r =
    (case r of
       NoResponse \<Rightarrow> Inl RequestException
     | Response status body \<Rightarrow>
        if \<not> ok status then Inl RequestException
        else (case body of
                None \<Rightarrow> Inl ValueError
              | Some (Record h m) \<Rightarrow> Inr \<lparr>sha = h, lastModified = m\<rparr>
              | Some NotRecord \<Rightarrow> Inl AttributeError))"

section \<open>The run: state store, notifier and \<^verbatim>\<open>main\<close>\<close>

text \<open>
  Everything a run reads from outside: the responses to its three GET requests, the clock,
  the two credentials of the environment, and what the messaging API answers to a POST
  (the call raises, or a response with a status code and a text).
\<close>

datatype post_result =
  PostRaises
| PostResponse nat string

record inputs =
  spaces_resp :: "listing_json http_result"
  models_resp :: "listing_json http_result"
  detail_resp :: "detail_json http_result"
  now :: string
  bot_token :: "string option"
  chat_id :: "string option"
  post_resp :: post_result

text \<open>
  Everything a run changes: the snapshot file (\<open>None\<close> when \<^verbatim>\<open>state.json\<close> does not
  exist), the lines it prints, and the POST requests it issues (token, chat id, text).
  Each \<^verbatim>\<open>print\<close> of the source is one constructor of \<open>line\<close>; \<open>Traceback\<close> is what the
  interpreter prints for an exception nobody caught, before it exits with code 1.
\<close>

datatype line =
  FetchFailed exn
| FirstRun
| NotConfigured string
| ApiError nat string
| Detected nat bool
| NoChanges
| Traceback exn

record world =
  state_file :: "snapshot option"
  console :: "line list"
  posts :: "(string \<times> string \<times> string) list"

definition print :: "line \<Rightarrow> world \<Rightarrow> world" where
  "print l w = w\<lparr>console := console w @ [l]\<rparr>"

text \<open>\<^verbatim>\<open>load_state\<close> and \<^verbatim>\<open>save_state\<close>, lines 45 to 55. The file is only ever written by
  \<^verbatim>\<open>save_state\<close>, so what is read back is a snapshot.\<close>

definition load_state :: "world \<Rightarrow> snapshot option" where
  "load_state w = state_file w"

definition save_state :: "snapshot \<Rightarrow> world \<Rightarrow> world" where
  "save_state state w = w\<lparr>state_file := Some state\<rparr>"

text \<open>
  \<^verbatim>\<open>send_telegram\<close>, lines 90 to 104. No handler surrounds \<^verbatim>\<open>requests.post\<close>: when it
  raises, so does \<^verbatim>\<open>send_telegram\<close>. The POST is recorded when it is issued, whatever
  comes back.
\<close>

definition send_telegram :: "inputs \<Rightarrow> string \<Rightarrow> world \<Rightarrow> (exn + bool) \<times> world" where
  "send_telegram i message w =
    (if \<not> truthy (bot_token i) \<or> \<not> truthy (chat_id i) then
       (Inr False, print (NotConfigured message) w)
     else
       (let w' = w\<lparr>posts := posts w @ [(the (bot_token i), the (chat_id i), message)]\<rparr>
        in case post_resp i of
             PostRaises \<Rightarrow> (Inl RequestException, w')
           | PostResponse status txt \<Rightarrow>
              if \<not> ok status then (Inr False, print (ApiError status txt) w')
              else (Inr True, w')))"

text \<open>Which exceptions \<^verbatim>\<open>except (requests.RequestException, ValueError)\<close> catches.\<close>

fun caught :: "exn \<Rightarrow> bool" where
  "caught RequestException = True"
| "caught ValueError = True"
| "caught _ = False"

text \<open>
  \<^verbatim>\<open>main\<close>, lines 107 to 137, returning the exit code of the process: 1 after
  \<^verbatim>\<open>sys.exit(1)\<close> and after an exception that nothing catches, 0 when \<^verbatim>\<open>main\<close> returns.
\<close>

definition main :: "inputs \<Rightarrow> world \<Rightarrow> nat \<times> world" where
  "main i w =
    (case (case fetch_repo_lists (spaces_resp i) (models_resp i) of
             Inl e \<Rightarrow> Inl e
           | Inr repos \<Rightarrow>
              (case fetch_space_detail (detail_resp i) of
                 Inl e \<Rightarrow> Inl e
               | Inr space_detail \<Rightarrow> Inr (repos, space_detail))) of
       Inl e \<Rightarrow> (1, print (if caught e then FetchFailed e else Traceback e) w)
     | Inr (repos, space_detail) \<Rightarrow>
        (let new_state = \<lparr>space_ids = fst repos, model_ids = snd repos,
                          watched_space = Some space_detail, checked_at = now i\<rparr>
         in case load_state w of
              None \<Rightarrow> (0, save_state new_state (print FirstRun w))
            | Some old_state \<Rightarrow>
               (let changes = detect_changes old_state new_state
                in if changes \<noteq> [] then
                     (case send_telegram i (format_alert changes) w of
                        (Inl e, w') \<Rightarrow> (1, print (Traceback e) w')
                      | (Inr sent, w') \<Rightarrow>
                         (0, save_state new_state (print (Detected (length changes) sent) w')))
                   else (0, save_state new_state (print NoChanges w)))))"

section \<open>Concrete snapshots and runs\<close>

text \<open>
  An entry of the change list is about the watched space when its message is the one the
  last block of \<^verbatim>\<open>detect_changes\<close> writes.
\<close>

definition watched_entry :: "change \<Rightarrow> bool" where
  "watched_entry c = prefix ''Puzzle space updated'' (snd c)"

text \<open>The decoded listing that names the given identifiers, in that order, and the decoded
  detail of a space at the given revision.\<close>

definition listing :: "string list \<Rightarrow> listing_json" where
  "listing ids = Array (map (\<lambda>i. Object (Some i)) ids)"

definition detail_body :: "string \<Rightarrow> detail_json" where
  "detail_body h = Record (Some h) (Some ''2026-01-01T00:00:00.000Z'')"

text \<open>A snapshot of an earlier run, and a later one with one more space, one more model
  and another revision of the watched space.\<close>

definition seen_snapshot :: snapshot where
  "seen_snapshot =
    \<lparr>space_ids = [''jane-street/puzzle''], model_ids = [],
     watched_space = Some \<lparr>sha = Some ''0a1b2c'', lastModified = Some ''2026-01-01T00:00:00.000Z''\<rparr>,
     checked_at = ''2026-01-01T06:00:00+00:00''\<rparr>"

definition grown_snapshot :: snapshot where
  "grown_snapshot =
    \<lparr>space_ids = [''jane-street/demo'', ''jane-street/puzzle''], model_ids = [''jane-street/m1''],
     watched_space = Some \<lparr>sha = Some ''ffff0000ffff0000'', lastModified = Some ''2026-01-02T05:00:00.000Z''\<rparr>,
     checked_at = ''2026-01-02T06:00:00+00:00''\<rparr>"

definition fresh_world :: world where
  "fresh_world = \<lparr>state_file = None, console = [], posts = []\<rparr>"

definition seen_world :: world where
  "seen_world = \<lparr>state_file = Some seen_snapshot, console = [], posts = []\<rparr>"

text \<open>A run in which every request is answered with status 200 and nothing has changed
  since \<open>seen_snapshot\<close>; the other runs differ from it in one or two answers.\<close>

definition quiet_inputs :: inputs where
  "quiet_inputs =
    \<lparr>spaces_resp = Response 200 (Some (listing [''jane-street/puzzle''])),
     models_resp = Response 200 (Some (listing [])),
     detail_resp = Response 200 (Some (detail_body ''0a1b2c'')),
     now = ''2026-01-02T06:00:00+00:00'',
     bot_token = Some ''123:abc'', chat_id = Some ''42'',
     post_resp = PostResponse 200 ''{}''\<rparr>"

definition new_model_post_raises :: inputs where
  "new_model_post_raises =
    quiet_inputs\<lparr>models_resp := Response 200 (Some (listing [''jane-street/m1''])),
                 post_resp := PostRaises\<rparr>"

definition new_revision_post_raises :: inputs where
  "new_revision_post_raises =
    quiet_inputs\<lparr>detail_resp := Response 200 (Some (detail_body ''ffff0000ffff0000'')),
                 post_resp := PostRaises\<rparr>"

definition spaces_status_500 :: inputs where
  "spaces_status_500 = quiet_inputs\<lparr>spaces_resp := Response 500 (Some (Array []))\<rparr>"


section \<open>Properties of the differ\<close>

lemma filter_tagged:
  "distinct L \<Longrightarrow>
   filter (\<lambda>c. snd c = pre @ x) (map (\<lambda>s. (p, pre @ s)) L) =
     (if x \<in> set L then [(p, pre @ x)] else [])"
  by (induction L) auto

lemma filter_other_tag:
  "pre \<noteq> pre' \<Longrightarrow> length pre = length pre' \<Longrightarrow>
   filter (\<lambda>c. snd c = pre @ x) (map (\<lambda>s. (p, pre' @ s)) L) = []"
  by (induction L) auto

lemma filter_new_ids:
  "filter (\<lambda>c. snd c = pre @ x) (map (\<lambda>s. (p, pre @ s)) (sorted_list_of_set (set xs - set ys)))
    = (if x \<in> set xs \<and> x \<notin> set ys then [(p, pre @ x)] else [])"
  using filter_tagged [of "sorted_list_of_set (set xs - set ys)" pre x p] by simp

text \<open>The change list is the concatenation of what its three blocks append.\<close>

lemma detect_changes_eq:
  "detect_changes old new =
     map (\<lambda>sid. (''HIGH'', ''New Space: '' @ sid))
       (sorted_list_of_set (set (space_ids new) - set (space_ids old)))
   @ map (\<lambda>mid. (''MEDIUM'', ''New Model: '' @ mid))
       (sorted_list_of_set (set (model_ids new) - set (model_ids old)))
   @ (case (get_sha old, get_sha new) of
       (Some a, Some b) \<Rightarrow>
         if a \<noteq> [] \<and> b \<noteq> [] \<and> a \<noteq> b
         then [(''MEDIUM'', ''Puzzle space updated (sha: '' @ take 12 b @ '')'')] else []
     | _ \<Rightarrow> [])"
  unfolding detect_changes_def Let_def
  by (cases "get_sha old"; cases "get_sha new") simp_all

lemma space_tail:
  "filter (\<lambda>c. snd c = ''New Space: '' @ x)
     (case (ho, hn) of
       (Some a, Some b) \<Rightarrow>
         if a \<noteq> [] \<and> b \<noteq> [] \<and> a \<noteq> b
         then [(''MEDIUM'', ''Puzzle space updated (sha: '' @ take 12 b @ '')'')] else []
     | _ \<Rightarrow> []) = []"
  by (cases ho; cases hn) simp_all

lemma model_tail:
  "filter (\<lambda>c. snd c = ''New Model: '' @ x)
     (case (ho, hn) of
       (Some a, Some b) \<Rightarrow>
         if a \<noteq> [] \<and> b \<noteq> [] \<and> a \<noteq> b
         then [(''MEDIUM'', ''Puzzle space updated (sha: '' @ take 12 b @ '')'')] else []
     | _ \<Rightarrow> []) = []"
  by (cases ho; cases hn) simp_all

text \<open>
  C1. For every pair of snapshots and every identifier \<open>x\<close>: the entries of the change list
  whose message is \<^verbatim>\<open>New Space: x\<close> are exactly one entry, of priority \<^verbatim>\<open>HIGH\<close>, when \<open>x\<close>
  is among the new snapshot's space ids and not among the old one's, and none otherwise
  (so none for an identifier that both snapshots list); the same holds of the model ids
  with the message \<^verbatim>\<open>New Model: x\<close> and the priority \<^verbatim>\<open>MEDIUM\<close>. An identifier that the
  new listing repeats still gives one entry.
\<close>

theorem detect_changes_new_identifiers:
  "filter (\<lambda>c. snd c = ''New Space: '' @ x) (detect_changes old new) =
     (if x \<in> set (space_ids new) \<and> x \<notin> set (space_ids old)
      then [(''HIGH'', ''New Space: '' @ x)] else [])
   \<and> filter (\<lambda>c. snd c = ''New Model: '' @ x) (detect_changes old new) =
     (if x \<in> set (model_ids new) \<and> x \<notin> set (model_ids old)
      then [(''MEDIUM'', ''New Model: '' @ x)] else [])"
proof -
  have sm: "filter (\<lambda>c. snd c = ''New Space: '' @ x)
              (map (\<lambda>m. (''MEDIUM'', ''New Model: '' @ m)) L) = []" for L
    by (rule filter_other_tag) simp_all
  have ms: "filter (\<lambda>c. snd c = ''New Model: '' @ x)
              (map (\<lambda>s. (''HIGH'', ''New Space: '' @ s)) L) = []" for L
    by (rule filter_other_tag) simp_all
  show ?thesis
    by (simp only: detect_changes_eq filter_append filter_new_ids sm ms space_tail model_tail
        append_Nil append_Nil2 simp_thms)
qed

theorem detect_changes_new_identifiers_witness:
  "filter (\<lambda>c. snd c = ''New Space: jane-street/demo'') (detect_changes seen_snapshot grown_snapshot)
     = [(''HIGH'', ''New Space: jane-street/demo'')]
   \<and> filter (\<lambda>c. snd c = ''New Space: jane-street/puzzle'') (detect_changes seen_snapshot grown_snapshot)
     = []
   \<and> filter (\<lambda>c. snd c = ''New Model: jane-street/m1'') (detect_changes seen_snapshot grown_snapshot)
     = [(''MEDIUM'', ''New Model: jane-street/m1'')]"
  using detect_changes_new_identifiers [of "''jane-street/demo''" seen_snapshot grown_snapshot]
    detect_changes_new_identifiers [of "''jane-street/puzzle''" seen_snapshot grown_snapshot]
    detect_changes_new_identifiers [of "''jane-street/m1''" seen_snapshot grown_snapshot]
  by (simp add: seen_snapshot_def grown_snapshot_def)

text \<open>
  C2. For every pair of snapshots, the entries of the change list about the watched space
  are exactly one entry, of priority \<^verbatim>\<open>MEDIUM\<close>, when both snapshots carry a token
  (\<^verbatim>\<open>sha\<close>) that is present and not empty and the two tokens differ; otherwise there is
  none, in particular when the token is missing or empty on either side.
\<close>

theorem detect_changes_watched:
  "filter watched_entry (detect_changes old new) =
    (case (get_sha old, get_sha new) of
       (Some a, Some b) \<Rightarrow>
         if a \<noteq> [] \<and> b \<noteq> [] \<and> a \<noteq> b
         then [(''MEDIUM'', ''Puzzle space updated (sha: '' @ take 12 b @ '')'')] else []
     | _ \<Rightarrow> [])"
proof -
  have a: "filter watched_entry (map (\<lambda>sid. (''HIGH'', ''New Space: '' @ sid)) L) = []" for L
    by (induction L) (simp_all add: watched_entry_def)
  have b: "filter watched_entry (map (\<lambda>mid. (''MEDIUM'', ''New Model: '' @ mid)) L) = []" for L
    by (induction L) (simp_all add: watched_entry_def)
  have c: "watched_entry (''MEDIUM'', ''Puzzle space updated (sha: '' @ t)" for t
    by (simp add: watched_entry_def)
  have d: "filter watched_entry
     (case (ho, hn) of
       (Some a, Some b) \<Rightarrow>
         if a \<noteq> [] \<and> b \<noteq> [] \<and> a \<noteq> b
         then [(''MEDIUM'', ''Puzzle space updated (sha: '' @ take 12 b @ '')'')] else []
     | _ \<Rightarrow> []) = (case (ho, hn) of
       (Some a, Some b) \<Rightarrow>
         if a \<noteq> [] \<and> b \<noteq> [] \<and> a \<noteq> b
         then [(''MEDIUM'', ''Puzzle space updated (sha: '' @ take 12 b @ '')'')] else []
     | _ \<Rightarrow> [])" for ho hn
    using c by (cases ho; cases hn) simp_all
  show ?thesis
    by (simp only: detect_changes_eq filter_append a b d append_Nil)
qed

theorem detect_changes_watched_witness:
  "filter watched_entry (detect_changes seen_snapshot grown_snapshot)
     = [(''MEDIUM'', ''Puzzle space updated (sha: ffff0000ffff)'')]
   \<and> filter watched_entry
       (detect_changes (seen_snapshot\<lparr>watched_space := None\<rparr>) grown_snapshot) = []"
  using detect_changes_watched [of seen_snapshot grown_snapshot]
    detect_changes_watched [of "seen_snapshot\<lparr>watched_space := None\<rparr>" grown_snapshot]
  by (simp add: seen_snapshot_def grown_snapshot_def get_sha_def)

text \<open>
  C3. A snapshot compared with itself gives the empty change list: both set differences
  are empty and the freshness token is equal to itself.
\<close>

theorem detect_changes_same_snapshot: "detect_changes s s = []"
  by (simp add: detect_changes_def Let_def)

theorem detect_changes_same_snapshot_witness: "detect_changes grown_snapshot grown_snapshot = []"
  by (rule detect_changes_same_snapshot)

text \<open>
  C10. The change list depends only on the two lists of identifiers and on the token of
  the watched space: two pairs of snapshots that agree on those, whatever their
  \<^verbatim>\<open>checked_at\<close> and \<^verbatim>\<open>lastModified\<close>, have the same change list.
\<close>

theorem detect_changes_depends_only_on:
  assumes "space_ids o1 = space_ids o2" "model_ids o1 = model_ids o2" "get_sha o1 = get_sha o2"
      and "space_ids n1 = space_ids n2" "model_ids n1 = model_ids n2" "get_sha n1 = get_sha n2"
  shows "detect_changes o1 n1 = detect_changes o2 n2"
  using assms by (simp add: detect_changes_def)

theorem detect_changes_depends_only_on_witness:
  "detect_changes seen_snapshot grown_snapshot =
   detect_changes
     (seen_snapshot\<lparr>checked_at := ''2025-12-31T06:00:00+00:00''\<rparr>)
     (grown_snapshot\<lparr>watched_space := Some \<lparr>sha = Some ''ffff0000ffff0000'', lastModified = None\<rparr>,
                     checked_at := ''2026-01-03T06:00:00+00:00''\<rparr>)"
  by (rule detect_changes_depends_only_on)
     (simp_all add: seen_snapshot_def grown_snapshot_def get_sha_def)

section \<open>Properties of the run\<close>




text \<open>
  A run whose fetch raises ends with code 1, prints one line (the message of the handler
  for the two exceptions it catches, the interpreter's traceback for the others), issues no
  POST and leaves the snapshot file as it was.
\<close>

lemma main_fetch_failure:
  assumes "fetch_repo_lists (spaces_resp i) (models_resp i) = Inl e
           \<or> (\<exists>repos. fetch_repo_lists (spaces_resp i) (models_resp i) = Inr repos
                \<and> fetch_space_detail (detail_resp i) = Inl e)"
  shows "main i w = (1, w\<lparr>console := console w @ [if caught e then FetchFailed e else Traceback e]\<rparr>)"
  using assms by (auto simp: main_def print_def)

text \<open>What makes each of the three requests raise an exception that \<^verbatim>\<open>main\<close> catches: no
  response or a body that is not JSON, for all three; a status from 400 to 599, for the
  detail request only.\<close>

lemma get_json_raises:
  "get_json NoResponse = Inl RequestException" "get_json (Response status None) = Inl ValueError"
  by simp_all

lemma fetch_space_detail_raises:
  "fetch_space_detail NoResponse = Inl RequestException"
  "400 \<le> status \<Longrightarrow> status < 600 \<Longrightarrow> fetch_space_detail (Response status body) = Inl RequestException"
  "ok status \<Longrightarrow> fetch_space_detail (Response status None) = Inl ValueError"
  by (simp_all add: fetch_space_detail_def ok_def)

text \<open>
  A delivery that the messaging API answers with an error status is not fatal: the run
  prints the error, reports the message as not sent, saves the new snapshot and ends with
  code 0.
\<close>

lemma main_delivery_refused:
  assumes "fetch_repo_lists (spaces_resp i) (models_resp i) = Inr (sids, mids)"
    and "fetch_space_detail (detail_resp i) = Inr d"
    and "new = \<lparr>space_ids = sids, model_ids = mids, watched_space = Some d, checked_at = now i\<rparr>"
    and "state_file w = Some old" and "detect_changes old new \<noteq> []"
    and "truthy (bot_token i)" and "truthy (chat_id i)"
    and "post_resp i = PostResponse status txt" and "\<not> ok status"
  shows "fst (main i w) = 0 \<and> state_file (snd (main i w)) = Some new
    \<and> console (snd (main i w)) =
        console w @ [ApiError status txt, Detected (length (detect_changes old new)) False]"
  using assms
  by (simp add: main_def load_state_def save_state_def send_telegram_def print_def Let_def)

text \<open>
  C8. Whenever the bot token or the chat id is absent from the environment,
  \<^verbatim>\<open>send_telegram\<close> prints the message, returns \<^verbatim>\<open>False\<close> without raising, and issues no
  POST: the world changes by the printed line only.
\<close>

theorem send_telegram_unconfigured:
  "bot_token i = None \<or> chat_id i = None \<Longrightarrow>
   send_telegram i message w = (Inr False, w\<lparr>console := console w @ [NotConfigured message]\<rparr>)"
  by (auto simp: send_telegram_def print_def)

theorem send_telegram_unconfigured_witness:
  "send_telegram (quiet_inputs\<lparr>chat_id := None\<rparr>) ''hello'' fresh_world =
     (Inr False, \<lparr>state_file = None, console = [NotConfigured ''hello''], posts = []\<rparr>)"
proof -
  have h: "bot_token (quiet_inputs\<lparr>chat_id := None\<rparr>) = None
           \<or> chat_id (quiet_inputs\<lparr>chat_id := None\<rparr>) = None"
    by simp
  show ?thesis
    using send_telegram_unconfigured [OF h, of "''hello''" fresh_world]
    by (simp add: fresh_world_def)
qed

text \<open>
  C4. On a first run, that is when no snapshot file exists, and whatever the fetch
  returned: the run saves the fetched snapshot, prints the first-run line only, issues no
  POST (every other part of the world is unchanged) and does not compute a change list;
  it ends with code 0.
\<close>

theorem main_first_run:
  assumes "state_file w = None"
    and "fetch_repo_lists (spaces_resp i) (models_resp i) = Inr (sids, mids)"
    and "fetch_space_detail (detail_resp i) = Inr d"
  shows "main i w =
    (0, w\<lparr>state_file := Some \<lparr>space_ids = sids, model_ids = mids, watched_space = Some d,
                               checked_at = now i\<rparr>,
          console := console w @ [FirstRun]\<rparr>)"
  using assms by (simp add: main_def load_state_def save_state_def print_def)

theorem main_first_run_witness:
  "main (quiet_inputs\<lparr>spaces_resp := Response 200 (Some (listing [''jane-street/puzzle'', ''jane-street/demo'']))\<rparr>)
     fresh_world =
    (0, \<lparr>state_file = Some \<lparr>space_ids = [''jane-street/demo'', ''jane-street/puzzle''], model_ids = [],
            watched_space = Some \<lparr>sha = Some ''0a1b2c'', lastModified = Some ''2026-01-01T00:00:00.000Z''\<rparr>,
            checked_at = ''2026-01-02T06:00:00+00:00''\<rparr>,
         console = [FirstRun], posts = []\<rparr>)"
proof -
  let ?i = "quiet_inputs\<lparr>spaces_resp := Response 200 (Some (listing [''jane-street/puzzle'', ''jane-street/demo'']))\<rparr>"
  have a: "state_file fresh_world = None"
    by (simp add: fresh_world_def)
  have b: "fetch_repo_lists (spaces_resp ?i) (models_resp ?i)
            = Inr ([''jane-street/demo'', ''jane-street/puzzle''], [])"
    by code_simp
  have c: "fetch_space_detail (detail_resp ?i)
            = Inr \<lparr>sha = Some ''0a1b2c'', lastModified = Some ''2026-01-01T00:00:00.000Z''\<rparr>"
    by code_simp
  have n: "now ?i = ''2026-01-02T06:00:00+00:00''"
    by (simp add: quiet_inputs_def)
  show ?thesis
    using main_first_run [OF a b c] by (simp add: n fresh_world_def)
qed




text \<open>
  C5. A fetch failure ends the run with code 1 and leaves the snapshot file alone, and
  every run without a fetch failure should end with code 0. The first half holds. The
  second does not: when both fetches succeed, a new model is found, the credentials are
  set and \<^verbatim>\<open>requests.post\<close> raises (no connection, timeout), nothing catches the exception
  and the process ends with code 1.
\<close>

theorem main_post_raises_exit_code:
  "fetch_repo_lists (spaces_resp new_model_post_raises) (models_resp new_model_post_raises)
     = Inr ([''jane-street/puzzle''], [''jane-street/m1''])
   \<and> fetch_space_detail (detail_resp new_model_post_raises)
     = Inr \<lparr>sha = Some ''0a1b2c'', lastModified = Some ''2026-01-01T00:00:00.000Z''\<rparr>
   \<and> fst (main new_model_post_raises seen_world) = 1"
  by code_simp

text \<open>
  C6. A response with a status outside 2xx, to any of the three requests, should abort the
  run with a code other than 0. \<^verbatim>\<open>fetch_space_detail\<close> calls \<^verbatim>\<open>raise_for_status\<close>;
  \<^verbatim>\<open>fetch_repo_lists\<close> does not, and decodes whatever body comes back. When the listing of
  spaces is answered with status 500 and the body \<^verbatim>\<open>[]\<close>, the run takes the empty list for
  the listing, ends with code 0 and saves a snapshot without any space.
\<close>

theorem main_listing_status_ignored:
  "main spaces_status_500 seen_world =
    (0, \<lparr>state_file = Some \<lparr>space_ids = [], model_ids = [],
            watched_space = Some \<lparr>sha = Some ''0a1b2c'', lastModified = Some ''2026-01-01T00:00:00.000Z''\<rparr>,
            checked_at = ''2026-01-02T06:00:00+00:00''\<rparr>,
         console = [NoChanges], posts = []\<rparr>)"
  by code_simp

text \<open>
  C7. When changes were detected, a delivery that fails should be printed, reported as not
  sent, and followed by the save of the new snapshot. That is what happens when the
  messaging API answers with an error status. When \<^verbatim>\<open>requests.post\<close> raises instead, the
  exception leaves \<^verbatim>\<open>send_telegram\<close> and \<^verbatim>\<open>main\<close>: the run issues its POST, prints the
  traceback only (no line reports the message as not sent), ends with code 1, and the file
  still holds the old snapshot.
\<close>

theorem main_post_raises_not_saved:
  "detect_changes seen_snapshot
     \<lparr>space_ids = [''jane-street/puzzle''], model_ids = [],
      watched_space = Some \<lparr>sha = Some ''ffff0000ffff0000'', lastModified = Some ''2026-01-01T00:00:00.000Z''\<rparr>,
      checked_at = ''2026-01-02T06:00:00+00:00''\<rparr>
     = [(''MEDIUM'', ''Puzzle space updated (sha: ffff0000ffff)'')]
   \<and> fst (main new_revision_post_raises seen_world) = 1
   \<and> state_file (snd (main new_revision_post_raises seen_world)) = Some seen_snapshot
   \<and> console (snd (main new_revision_post_raises seen_world)) = [Traceback RequestException]
   \<and> length (posts (snd (main new_revision_post_raises seen_world))) = 1"
  by code_simp

end
